theory Spec2Isabelle
  imports Complex_Main
begin

section \<open>Common data\<close>

text \<open>
  The signal-to-order pipeline of the trading bot: signal validator, position sizer, risk
  manager, safety manager and execution engine. TypeScript \<open>number\<close> values are modelled
  as \<^typ>\<open>real\<close>: arithmetic is exact, so IEEE rounding, \<open>NaN\<close> and the infinities
  are outside the model except where a division by zero is written out below. Numeric
  strings of the exchange (\<open>availableBalance\<close>, \<open>positionAmt\<close>, \<open>entryPrice\<close>) are
  represented by the number \<open>parseFloat\<close> reads from them. \<open>Date.now()\<close> is an explicit
  argument \<open>now\<close> (milliseconds); logging has no effect on any result and is left out.
\<close>

datatype risk_level = LOW | MEDIUM | HIGH | CRITICAL

datatype SignalAction = BUY | SELL | CLOSE

datatype SignalStrength = STRONG | MEDIUM_STRENGTH | WEAK

text \<open>The order \<open>LOW < MEDIUM < HIGH < CRITICAL\<close> of the specification, and its maximum.\<close>

fun level_rank :: "risk_level \<Rightarrow> nat" where
  "level_rank LOW = 0"
| "level_rank MEDIUM = 1"
| "level_rank HIGH = 2"
| "level_rank CRITICAL = 3"

definition worse :: "risk_level \<Rightarrow> risk_level \<Rightarrow> risk_level" where
  "worse a b = (if level_rank a < level_rank b then b else a)"

definition worst :: "risk_level list \<Rightarrow> risk_level" where
  "worst ls = foldl worse LOW ls"

text \<open>The fields of \<open>BingXPosition\<close>, \<open>BingXAccountInfo\<close>, \<open>TradeRecord\<close> and
  \<open>RiskMetrics\<close> that the modelled functions read.\<close>

record BingXPosition =
  pos_symbol :: string
  positionAmt :: real
  entryPrice :: real

record BingXAccountInfo =
  availableBalance :: real

record TradeRecord =
  trade_symbol :: string
  pnl :: "real option"

record RiskMetrics =
  rm_currentDrawdown :: real
  rm_dailyPnL :: real
  rm_maxDrawdown :: real
  rm_volatility :: real

section \<open>JavaScript values\<close>

text \<open>
  A \<open>number\<close> that a division may have made \<open>NaN\<close> or infinite (the sign of a zero
  is not tracked).
\<close>

datatype js_number = Num real | PosInfinity | NegInfinity | NaN

text \<open>The quotient of two finite numbers, with the IEEE results of a division by zero.\<close>

definition js_div :: "real \<Rightarrow> real \<Rightarrow> js_number" where
  "js_div a b =
     (if b = 0 then (if a = 0 then NaN else if 0 < a then PosInfinity else NegInfinity)
      else Num (a / b))"

fun js_gt :: "js_number \<Rightarrow> real \<Rightarrow> bool" where
  "js_gt (Num a) b = (b < a)"
| "js_gt PosInfinity b = True"
| "js_gt NegInfinity b = False"
| "js_gt NaN b = False"







fun js_le :: "js_number \<Rightarrow> real \<Rightarrow> bool" where
  "js_le (Num a) b = (a \<le> b)"
| "js_le NegInfinity b = True"
| "js_le PosInfinity b = False"
| "js_le NaN b = False"

text \<open>An optional number used as a condition: \<open>undefined\<close> and \<open>0\<close> are falsy.\<close>

definition truthy :: "real option \<Rightarrow> bool" where
  "truthy v = (case v of None \<Rightarrow> False | Some x \<Rightarrow> x \<noteq> 0)"

text \<open>
  Numbers rendered into identifiers (\<open>orderId.toString()\<close>, \<open>Date.now()\<close> inside a
  client order id) are integers; \<open>show_int\<close> is their decimal form.
\<close>

definition digit_char :: "nat \<Rightarrow> char" where
  "digit_char d = char_of (48 + d)"

function show_nat :: "nat \<Rightarrow> string" where
  "show_nat n = (if n < 10 then [digit_char n] else show_nat (n div 10) @ [digit_char (n mod 10)])"
  by pat_completeness auto
termination
  by (relation "measure (\<lambda>n. n)") auto

definition show_int :: "int \<Rightarrow> string" where
  "show_int i = (if i < 0 then CHR ''-'' # show_nat (nat (- i)) else show_nat (nat i))"

fun join :: "string \<Rightarrow> string list \<Rightarrow> string" where
  "join sep [] = []"
| "join sep [x] = x"
| "join sep (x # y # zs) = x @ sep @ join sep (y # zs)"

section \<open>Safety manager\<close>

text \<open>Source: \<^verbatim>\<open>src/src/trading/safety-manager.ts\<close>.\<close>

record SafetyThresholds =
  maxDailyLoss :: real
  maxDrawdown :: real
  maxOpenPositions :: real
  maxPositionSize :: real
  maxLeverage :: real
  minBalance :: real
  maxConsecutiveLosses :: real
  maxVolatility :: real
  emergencyStopLoss :: real

text \<open>A warning is a template string of the source with the value it interpolates.\<close>

datatype safety_warning =
    EmergencyStopIsActive
  | CircuitBreakerActive string
  | BalanceBelowMinimum real
  | DailyLossLimitExceeded real
  | MaximumDrawdownExceeded real
  | MaximumOpenPositionsReached nat
  | MaximumPositionSizeExceeded real
  | MaximumConsecutiveLossesReached nat
  | HighVolatilityDetected real
  | MaximumLeverageExceeded js_number

record SafetyStatus =
  isTradingEnabled :: bool
  circuitBreakerActive :: bool
  emergencyStopActive :: bool
  warnings :: "safety_warning list"
  lastCheck :: int
  riskLevel :: risk_level

record CircuitBreakerState =
  isActive :: bool
  triggerTime :: int
  triggerReason :: string
  cooldownPeriod :: int
  autoReset :: bool

record TradingSession =
  startTime :: int
  endTime :: "int option"
  session_pnl :: real
  session_trades :: real

record SafetyManager =
  thresholds :: SafetyThresholds
  circuitBreaker :: CircuitBreakerState
  emergencyStop :: bool
  consecutiveLosses :: nat
  dailyLoss :: real
  lastResetTime :: int
  tradingSessions :: "TradingSession list"

text \<open>The constructor: every accumulator starts at zero, the breaker inactive.\<close>

definition newSafetyManager :: "int \<Rightarrow> SafetyThresholds \<Rightarrow> SafetyManager" where
  "newSafetyManager now th =
     \<lparr>thresholds = th,
      circuitBreaker = \<lparr>isActive = False, triggerTime = 0, triggerReason = '''',
                        cooldownPeriod = 30 * 60 * 1000, autoReset = True\<rparr>,
      emergencyStop = False,
      consecutiveLosses = 0,
      dailyLoss = 0,
      lastResetTime = now,
      tradingSessions = []\<rparr>"

definition triggerCircuitBreaker :: "int \<Rightarrow> string \<Rightarrow> SafetyManager \<Rightarrow> SafetyManager" where
  "triggerCircuitBreaker now reason sm =
     sm\<lparr>circuitBreaker := \<lparr>isActive = True, triggerTime = now, triggerReason = reason,
                             cooldownPeriod = 30 * 60 * 1000, autoReset = True\<rparr>\<rparr>"

definition resetCircuitBreaker :: "SafetyManager \<Rightarrow> SafetyManager" where
  "resetCircuitBreaker sm = sm\<lparr>circuitBreaker := (circuitBreaker sm)\<lparr>isActive := False\<rparr>\<rparr>"

definition activateEmergencyStop :: "SafetyManager \<Rightarrow> SafetyManager" where
  "activateEmergencyStop sm = sm\<lparr>emergencyStop := True\<rparr>"

definition deactivateEmergencyStop :: "SafetyManager \<Rightarrow> SafetyManager" where
  "deactivateEmergencyStop sm = sm\<lparr>emergencyStop := False\<rparr>"

text \<open>
  \<open>updateDailyLoss\<close> compares the local calendar day of the last reset with today's.
  The conversion of an instant to the process's local date is the argument \<open>cal\<close>; the
  source's test \<open>d1 !== d2 || m1 !== m2 || y1 !== y2\<close> is written as the negation of the
  three equalities.
\<close>

record local_date =
  getDate :: nat
  getMonth :: nat
  getFullYear :: int

definition updateDailyLoss ::
  "(int \<Rightarrow> local_date) \<Rightarrow> int \<Rightarrow> real \<Rightarrow> SafetyManager \<Rightarrow> SafetyManager" where
  "updateDailyLoss cal now p sm =
     (let sm1 = sm\<lparr>dailyLoss := dailyLoss sm + p\<rparr>;
          lastReset = cal (lastResetTime sm1);
          currentDay = cal now
      in if \<not> (getDate lastReset = getDate currentDay
               \<and> getMonth lastReset = getMonth currentDay
               \<and> getFullYear lastReset = getFullYear currentDay)
         then sm1\<lparr>dailyLoss := p, lastResetTime := now, consecutiveLosses := 0\<rparr>
         else sm1)"

definition startTradingSession :: "int \<Rightarrow> SafetyManager \<Rightarrow> SafetyManager" where
  "startTradingSession now sm =
     sm\<lparr>tradingSessions := tradingSessions sm @
          [\<lparr>startTime = now, endTime = None, session_pnl = 0, session_trades = 0\<rparr>]\<rparr>"

definition endTradingSession :: "int \<Rightarrow> real \<Rightarrow> real \<Rightarrow> SafetyManager \<Rightarrow> SafetyManager" where
  "endTradingSession now p n sm =
     (case rev (tradingSessions sm) of
        [] \<Rightarrow> sm
      | cur # older \<Rightarrow>
          sm\<lparr>tradingSessions :=
               rev older @ [cur\<lparr>endTime := Some now, session_pnl := p, session_trades := n\<rparr>]\<rparr>)"

text \<open>
  \<open>updateConsecutiveLosses\<close>: the loop runs from the last trade backwards and stops at
  the first trade whose \<open>pnl\<close> is missing, zero or positive (\<open>trade.pnl && trade.pnl < 0\<close>).
\<close>

definition isLoss :: "TradeRecord \<Rightarrow> bool" where
  "isLoss t = (case pnl t of None \<Rightarrow> False | Some p \<Rightarrow> p \<noteq> 0 \<and> p < 0)"

fun countLosses :: "TradeRecord list \<Rightarrow> nat" where
  "countLosses [] = 0"
| "countLosses (t # ts) = (if isLoss t then Suc (countLosses ts) else 0)"

definition updateConsecutiveLosses :: "TradeRecord list \<Rightarrow> SafetyManager \<Rightarrow> SafetyManager" where
  "updateConsecutiveLosses recentTrades sm =
     sm\<lparr>consecutiveLosses := countLosses (rev recentTrades)\<rparr>"

definition totalPositionValue :: "BingXPosition list \<Rightarrow> real" where
  "totalPositionValue ps = foldl (\<lambda>s p. s + positionAmt p * entryPrice p) 0 ps"

text \<open>
  \<open>checkSafety\<close>. The three locals \<open>warnings\<close>, \<open>riskLevel\<close> and \<open>isTradingEnabled\<close>
  are threaded through the checks in the order of the source (\<open>w\<close>, \<open>r\<close>, \<open>e\<close> with the
  number of the check), as is the manager, which three of the checks (by tripping the
  breaker) and the final update of the loss count change.
\<close>

definition checkSafety ::
  "int \<Rightarrow> SafetyManager \<Rightarrow> BingXAccountInfo \<Rightarrow> BingXPosition list \<Rightarrow> RiskMetrics
     \<Rightarrow> TradeRecord list \<Rightarrow> SafetyStatus \<times> SafetyManager" where
  "checkSafety now sm accountInfo openPositions riskMetrics recentTrades =
     (if emergencyStop sm then
        (\<lparr>isTradingEnabled = False, circuitBreakerActive = False, emergencyStopActive = True,
          warnings = [EmergencyStopIsActive], lastCheck = now, riskLevel = CRITICAL\<rparr>, sm)
      else if isActive (circuitBreaker sm)
              \<and> now - triggerTime (circuitBreaker sm) < cooldownPeriod (circuitBreaker sm) then
        (\<lparr>isTradingEnabled = False, circuitBreakerActive = True, emergencyStopActive = False,
          warnings = [CircuitBreakerActive (triggerReason (circuitBreaker sm))],
          lastCheck = now, riskLevel = HIGH\<rparr>, sm)
      else
        let th = thresholds sm;
            sm0 = (if isActive (circuitBreaker sm) \<and> autoReset (circuitBreaker sm)
                   then resetCircuitBreaker sm else sm);
            balance = availableBalance accountInfo;
            c1 = (balance < minBalance th);
            w1 = (if c1 then [BalanceBelowMinimum balance] else []);
            r1 = (if c1 then CRITICAL else LOW);
            e1 = (if c1 then False else True);
            c2 = (dailyLoss sm0 < - maxDailyLoss th);
            w2 = (if c2 then w1 @ [DailyLossLimitExceeded (dailyLoss sm0)] else w1);
            r2 = (if c2 then CRITICAL else r1);
            e2 = (if c2 then False else e1);
            sm2 = (if c2 then triggerCircuitBreaker now ''Daily loss limit exceeded'' sm0
                   else sm0);
            c3 = (rm_maxDrawdown riskMetrics > maxDrawdown th);
            w3 = (if c3 then w2 @ [MaximumDrawdownExceeded (rm_maxDrawdown riskMetrics)] else w2);
            r3 = (if c3 then CRITICAL else r2);
            e3 = (if c3 then False else e2);
            sm3 = (if c3 then triggerCircuitBreaker now ''Maximum drawdown exceeded'' sm2
                   else sm2);
            c4 = (real (length openPositions) \<ge> maxOpenPositions th);
            w4 = (if c4 then w3 @ [MaximumOpenPositionsReached (length openPositions)] else w3);
            r4 = (if c4 then HIGH else r3);
            total = totalPositionValue openPositions;
            c5 = (total > maxPositionSize th);
            w5 = (if c5 then w4 @ [MaximumPositionSizeExceeded total] else w4);
            r5 = (if c5 then HIGH else r4);
            c6 = (real (consecutiveLosses sm3) \<ge> maxConsecutiveLosses th);
            w6 = (if c6 then w5 @ [MaximumConsecutiveLossesReached (consecutiveLosses sm3)]
                  else w5);
            r6 = (if c6 then HIGH else r5);
            sm6 = (if c6 then triggerCircuitBreaker now ''Maximum consecutive losses reached'' sm3
                   else sm3);
            c7 = (rm_volatility riskMetrics > maxVolatility th);
            w7 = (if c7 then w6 @ [HighVolatilityDetected (rm_volatility riskMetrics)] else w6);
            r7 = (if c7 then MEDIUM else r6);
            currentLeverage = js_div total balance;
            c8 = js_gt currentLeverage (maxLeverage th);
            w8 = (if c8 then w7 @ [MaximumLeverageExceeded currentLeverage] else w7);
            r8 = (if c8 then HIGH else r7);
            sm8 = updateConsecutiveLosses recentTrades sm6
        in (\<lparr>isTradingEnabled = e3, circuitBreakerActive = isActive (circuitBreaker sm8),
             emergencyStopActive = emergencyStop sm8, warnings = w8, lastCheck = now,
             riskLevel = r8\<rparr>, sm8))"

text \<open>
  The state-changing methods of the class as operations, and a run of them from a state.
  The remaining public methods (\<open>getSessionStats\<close>, \<open>shouldForceClosePosition\<close>,
  \<open>getSafetyRecommendations\<close>, \<open>getSafetySummary\<close>) assign no field.
\<close>

datatype safety_op =
    CheckSafety int BingXAccountInfo "BingXPosition list" RiskMetrics "TradeRecord list"
  | TriggerCircuitBreaker int string
  | ResetCircuitBreaker
  | ActivateEmergencyStop
  | DeactivateEmergencyStop
  | UpdateDailyLoss int real
  | StartTradingSession int
  | EndTradingSession int real real

fun applyOp :: "(int \<Rightarrow> local_date) \<Rightarrow> SafetyManager \<Rightarrow> safety_op \<Rightarrow> SafetyManager" where
  "applyOp cal sm (CheckSafety now a ps m ts) = snd (checkSafety now sm a ps m ts)"
| "applyOp cal sm (TriggerCircuitBreaker now reason) = triggerCircuitBreaker now reason sm"
| "applyOp cal sm ResetCircuitBreaker = resetCircuitBreaker sm"
| "applyOp cal sm ActivateEmergencyStop = activateEmergencyStop sm"
| "applyOp cal sm DeactivateEmergencyStop = deactivateEmergencyStop sm"
| "applyOp cal sm (UpdateDailyLoss now p) = updateDailyLoss cal now p sm"
| "applyOp cal sm (StartTradingSession now) = startTradingSession now sm"
| "applyOp cal sm (EndTradingSession now p n) = endTradingSession now p n sm"

definition runOps :: "(int \<Rightarrow> local_date) \<Rightarrow> SafetyManager \<Rightarrow> safety_op list \<Rightarrow> SafetyManager" where
  "runOps cal sm ops = foldl (applyOp cal) sm ops"

section \<open>Risk manager\<close>

text \<open>Source: \<^verbatim>\<open>src/src/trading/risk-manager.ts\<close>.\<close>

record RiskManagementConfig =
  stopLossPercent :: real
  takeProfitPercent :: real
  trailingStopPercent :: real
  useVolatilityStops :: bool
  maxRiskPerTrade :: real
  riskRewardRatio :: real

record ProcessedSignal =
  sig_id :: string
  sig_symbol :: string
  action :: SignalAction
  strength :: SignalStrength
  sig_price :: real
  sig_confidence :: real

record RiskCheckResult =
  shouldTrade :: bool
  rc_riskLevel :: risk_level
  rc_warnings :: "string list"
  rc_maxPositionSize :: js_number
  stopLossPrice :: real
  takeProfitPrice :: real
  trailingStopPrice :: "real option"

text \<open>The fields of the class that \<open>checkTradeRisk\<close> reads or writes.\<close>

record RiskManager =
  config :: RiskManagementConfig
  dailyPnL :: real
  peakBalance :: real

definition calculateDrawdown :: "real \<Rightarrow> RiskManager \<Rightarrow> real \<times> RiskManager" where
  "calculateDrawdown currentBalance rk =
     (if peakBalance rk = 0 then (0, rk\<lparr>peakBalance := currentBalance\<rparr>)
      else if currentBalance > peakBalance rk then (0, rk\<lparr>peakBalance := currentBalance\<rparr>)
      else (((peakBalance rk - currentBalance) / peakBalance rk) * 100, rk))"

fun riskMultipliers :: "risk_level \<Rightarrow> real" where
  "riskMultipliers LOW = 1.0"
| "riskMultipliers MEDIUM = 0.7"
| "riskMultipliers HIGH = 0.4"
| "riskMultipliers CRITICAL = 0.0"

definition calculateRiskAdjustedPositionSize :: "real \<Rightarrow> real \<Rightarrow> risk_level \<Rightarrow> js_number" where
  "calculateRiskAdjustedPositionSize accountBalance price lvl =
     (let baseSize = accountBalance * 0.02
      in js_div (baseSize * riskMultipliers lvl) price)"

definition calculateStopLevels ::
  "RiskManagementConfig \<Rightarrow> ProcessedSignal \<Rightarrow> real \<Rightarrow> real option \<Rightarrow> real \<times> real" where
  "calculateStopLevels cfg sig currentPrice volatility =
     (let stopLossDistance =
            (if truthy volatility \<and> useVolatilityStops cfg
             then (the volatility / 100) * currentPrice * 2
             else currentPrice * (stopLossPercent cfg / 100));
          takeProfitDistance =
            (if truthy volatility \<and> useVolatilityStops cfg
             then stopLossDistance * riskRewardRatio cfg
             else currentPrice * (takeProfitPercent cfg / 100))
      in if action sig = BUY
         then (currentPrice - stopLossDistance, currentPrice + takeProfitDistance)
         else (currentPrice + stopLossDistance, currentPrice - takeProfitDistance))"

datatype position_side = LONG | SHORT

definition calculateTrailingStop :: "real \<Rightarrow> real \<Rightarrow> position_side \<Rightarrow> real" where
  "calculateTrailingStop currentPrice volatility side =
     (let trailingDistance = (volatility / 100) * currentPrice * 1.5
      in if side = LONG then currentPrice - trailingDistance
         else currentPrice + trailingDistance)"

definition checkTradeRisk ::
  "RiskManager \<Rightarrow> ProcessedSignal \<Rightarrow> real \<Rightarrow> real \<Rightarrow> BingXPosition list \<Rightarrow> real option
     \<Rightarrow> RiskCheckResult \<times> RiskManager" where
  "checkTradeRisk rk sig currentPrice accountBalance openPositions volatility =
     (let cfg = config rk;
          c1 = (dailyPnL rk < - (accountBalance * maxRiskPerTrade cfg / 100));
          s1 = (if c1 then False else True);
          w1 = (if c1 then [''Daily loss limit reached''] else []);
          r1 = (if c1 then CRITICAL else LOW);
          currentDrawdown = fst (calculateDrawdown accountBalance rk);
          rk2 = snd (calculateDrawdown accountBalance rk);
          c2 = (currentDrawdown > 10);
          s2 = (if c2 then False else s1);
          w2 = (if c2 then w1 @ [''Maximum drawdown exceeded''] else w1);
          r2 = (if c2 then CRITICAL else r1);
          symbolPositions = filter (\<lambda>p. pos_symbol p = sig_symbol sig) openPositions;
          c3 = (length symbolPositions > 0);
          w3 = (if c3 then w2 @ [''Position already exists for this symbol''] else w2);
          r3 = (if c3 then HIGH else r2);
          c4 = (truthy volatility \<and> the volatility > 50);
          w4 = (if c4 then w3 @ [''High volatility detected''] else w3);
          r4 = (if c4 then HIGH else r3);
          maxPositionSize' = calculateRiskAdjustedPositionSize accountBalance currentPrice r4;
          levels = calculateStopLevels cfg sig currentPrice volatility;
          trailing =
            (if useVolatilityStops cfg \<and> truthy volatility
             then Some (calculateTrailingStop currentPrice (the volatility)
                          (if action sig = BUY then LONG else SHORT))
             else None)
      in (\<lparr>shouldTrade = s2, rc_riskLevel = r4, rc_warnings = w4,
           rc_maxPositionSize = maxPositionSize', stopLossPrice = fst levels,
           takeProfitPrice = snd levels, trailingStopPrice = trailing\<rparr>, rk2))"

section \<open>Position sizer\<close>


record PositionSizeRequest =
  req_symbol :: string
  req_price :: real
  req_confidence :: real
  signalStrength :: SignalStrength
  accountBalance :: real
  currentPositions :: real
  req_volatility :: "real option"
  req_maxRiskPerTrade :: "real option"

record PositionSizeResult =
  quantity :: js_number
  notionalValue :: js_number
  riskAmount :: js_number
  riskPercentage :: js_number
  leverage :: js_number
  strategy :: string
  ps_confidence :: real
  ps_warnings :: "string list"













section \<open>Execution engine\<close>

text \<open>Source: the module \<^verbatim>\<open>execution-engine\<close>, \<^verbatim>\<open>src/unnamed/part_006\<close>.\<close>

datatype order_side = Buy | Sell

datatype order_type = MARKET | STOP_MARKET | LIMIT

datatype time_in_force = IOC | GTC

text \<open>
  An order request with the fields the engine sets. \<open>quantity\<close>, \<open>price\<close> and
  \<open>stopPrice\<close> are the numbers whose decimal strings the source sends; a quantity comes
  from the position sizer and may be \<open>NaN\<close>.
\<close>

record BingXOrderRequest =
  or_symbol :: string
  or_side :: order_side
  orderType :: order_type
  or_quantity :: js_number
  positionSide :: position_side
  or_price :: "real option"
  stopPrice :: "real option"
  reduceOnly :: bool
  timeInForce :: time_in_force
  newClientOrderId :: string

datatype order_status = PENDING | FILLED | CANCELLED | REJECTED

record OrderManagementData =
  om_orderId :: string
  om_clientOrderId :: string
  om_symbol :: string
  om_side :: order_side
  om_quantity :: js_number
  om_price :: real
  om_stopLossPrice :: real
  om_takeProfitPrice :: real
  om_status :: order_status
  om_timestamp :: int
  retryCount :: nat
  om_maxRetries :: nat

record TradeExecutionResult =
  success :: bool
  orderId :: "string option"
  clientOrderId :: "string option"
  executedPrice :: "real option"
  executedQuantity :: "js_number option"
  fees :: "real option"
  error :: "string option"
  ex_warnings :: "string list"
  ex_timestamp :: int

text \<open>
  The exchange client behind \<open>client.placeOrder\<close>: given the requests it has received so
  far and a new request, it either throws (\<open>Inl\<close> of the error message) or answers with
  an order id. The engine's state is the list of requests it has sent (oldest first) and
  its two order tables.
\<close>

type_synonym exchange = "BingXOrderRequest list \<Rightarrow> BingXOrderRequest \<Rightarrow> string + int"

record TradeExecutionEngine =
  sent :: "BingXOrderRequest list"
  activeOrders :: "string \<rightharpoonup> OrderManagementData"
  orderHistory :: "OrderManagementData list"

definition maxRetries :: nat where
  "maxRetries = 3"

text \<open>
  The retry loop of \<open>placeOrderWithRetry\<close>: \<open>for (attempt = 1; attempt <= maxRetries;
  attempt++)\<close>, with \<open>left\<close> the attempts still to run. The delay between two attempts
  changes no value.
\<close>

fun retryLoop ::
  "exchange \<Rightarrow> int \<Rightarrow> BingXOrderRequest \<Rightarrow> nat \<Rightarrow> nat \<Rightarrow> string \<Rightarrow> TradeExecutionEngine
     \<Rightarrow> TradeExecutionResult \<times> TradeExecutionEngine" where
  "retryLoop ex now orderRequest 0 attempt lastError eng =
     (\<lparr>success = False, orderId = None, clientOrderId = None, executedPrice = None,
       executedQuantity = None, fees = None,
       error = Some (''Order placement failed after '' @ show_nat maxRetries @ '' attempts: ''
                      @ lastError),
       ex_warnings = [], ex_timestamp = now\<rparr>, eng)"
| "retryLoop ex now orderRequest (Suc left) attempt lastError eng =
     (let eng1 = eng\<lparr>sent := sent eng @ [orderRequest]\<rparr>
      in case ex (sent eng) orderRequest of
           Inr oid \<Rightarrow>
             (let orderData =
                    \<lparr>om_orderId = show_int oid,
                     om_clientOrderId = newClientOrderId orderRequest,
                     om_symbol = or_symbol orderRequest,
                     om_side = or_side orderRequest,
                     om_quantity = or_quantity orderRequest,
                     om_price = 0, om_stopLossPrice = 0, om_takeProfitPrice = 0,
                     om_status = PENDING, om_timestamp = now,
                     retryCount = attempt - 1, om_maxRetries = maxRetries\<rparr>
              in (\<lparr>success = True, orderId = Some (show_int oid),
                    clientOrderId = Some (newClientOrderId orderRequest),
                    executedPrice = None, executedQuantity = None, fees = None, error = None,
                    ex_warnings = [], ex_timestamp = now\<rparr>,
                  eng1\<lparr>activeOrders :=
                         (activeOrders eng1)(om_clientOrderId orderData \<mapsto> orderData)\<rparr>))
         | Inl msg \<Rightarrow> retryLoop ex now orderRequest left (Suc attempt) msg eng1)"

definition placeOrderWithRetry ::
  "exchange \<Rightarrow> int \<Rightarrow> BingXOrderRequest \<Rightarrow> TradeExecutionEngine
     \<Rightarrow> TradeExecutionResult \<times> TradeExecutionEngine" where
  "placeOrderWithRetry ex now orderRequest eng =
     retryLoop ex now orderRequest maxRetries 1 [] eng"

definition stopLossRequest ::
  "int \<Rightarrow> string \<Rightarrow> js_number \<Rightarrow> real \<Rightarrow> position_side \<Rightarrow> string \<Rightarrow> BingXOrderRequest" where
  "stopLossRequest now symbol qty stopPrice' side parentOrderId =
     \<lparr>or_symbol = symbol, or_side = (if side = LONG then Sell else Buy),
      orderType = STOP_MARKET, or_quantity = qty, positionSide = side, or_price = None,
      stopPrice = Some stopPrice', reduceOnly = True, timeInForce = GTC,
      newClientOrderId = ''sl_'' @ parentOrderId @ ''_'' @ show_int now\<rparr>"

definition takeProfitRequest ::
  "int \<Rightarrow> string \<Rightarrow> js_number \<Rightarrow> real \<Rightarrow> position_side \<Rightarrow> string \<Rightarrow> BingXOrderRequest" where
  "takeProfitRequest now symbol qty takeProfitPrice' side parentOrderId =
     \<lparr>or_symbol = symbol, or_side = (if side = LONG then Sell else Buy),
      orderType = LIMIT, or_quantity = qty, positionSide = side,
      or_price = Some takeProfitPrice', stopPrice = None, reduceOnly = True, timeInForce = GTC,
      newClientOrderId = ''tp_'' @ parentOrderId @ ''_'' @ show_int now\<rparr>"

text \<open>
  \<open>placeStopLossOrder\<close> and \<open>placeTakeProfitOrder\<close> share their shape: one call of the
  client inside \<open>try\<close>, and a failure result carrying the given warning from \<open>catch\<close>.
\<close>

definition placeBracketOrder ::
  "exchange \<Rightarrow> int \<Rightarrow> BingXOrderRequest \<Rightarrow> string \<Rightarrow> TradeExecutionEngine
     \<Rightarrow> TradeExecutionResult \<times> TradeExecutionEngine" where
  "placeBracketOrder ex now request failure eng =
     (let eng1 = eng\<lparr>sent := sent eng @ [request]\<rparr>
      in case ex (sent eng) request of
           Inr oid \<Rightarrow>
             (\<lparr>success = True, orderId = Some (show_int oid),
               clientOrderId = Some (newClientOrderId request), executedPrice = None,
               executedQuantity = None, fees = None, error = None, ex_warnings = [],
               ex_timestamp = now\<rparr>, eng1)
         | Inl msg \<Rightarrow>
             (\<lparr>success = False, orderId = None, clientOrderId = None, executedPrice = None,
               executedQuantity = None, fees = None, error = Some msg,
               ex_warnings = [failure], ex_timestamp = now\<rparr>, eng1))"

definition placeStopLossOrder ::
  "exchange \<Rightarrow> int \<Rightarrow> string \<Rightarrow> js_number \<Rightarrow> real \<Rightarrow> position_side \<Rightarrow> string
     \<Rightarrow> TradeExecutionEngine \<Rightarrow> TradeExecutionResult \<times> TradeExecutionEngine" where
  "placeStopLossOrder ex now symbol qty stopPrice' side parentOrderId eng =
     placeBracketOrder ex now (stopLossRequest now symbol qty stopPrice' side parentOrderId)
       ''Failed to place stop loss order'' eng"

definition placeTakeProfitOrder ::
  "exchange \<Rightarrow> int \<Rightarrow> string \<Rightarrow> js_number \<Rightarrow> real \<Rightarrow> position_side \<Rightarrow> string
     \<Rightarrow> TradeExecutionEngine \<Rightarrow> TradeExecutionResult \<times> TradeExecutionEngine" where
  "placeTakeProfitOrder ex now symbol qty takeProfitPrice' side parentOrderId eng =
     placeBracketOrder ex now (takeProfitRequest now symbol qty takeProfitPrice' side parentOrderId)
       ''Failed to place take profit order'' eng"

record TradeExecutionRequest =
  signal :: ProcessedSignal
  positionSize :: PositionSizeResult
  riskCheck :: RiskCheckResult
  currentPrice :: real
  accountInfo :: BingXAccountInfo

definition entryRequest :: "int \<Rightarrow> string \<Rightarrow> TradeExecutionRequest \<Rightarrow> BingXOrderRequest" where
  "entryRequest now nonce request =
     \<lparr>or_symbol = sig_symbol (signal request),
      or_side = (if action (signal request) = BUY then Buy else Sell),
      orderType = MARKET,
      or_quantity = quantity (positionSize request),
      positionSide = (if action (signal request) = BUY then LONG else SHORT),
      or_price = None, stopPrice = None, reduceOnly = False, timeInForce = IOC,
      newClientOrderId = ''bot_'' @ show_int now @ ''_'' @ nonce\<rparr>"

text \<open>
  \<open>executeTrade\<close>. \<open>nonce\<close> is the random suffix of the client order id. No statement
  of the \<open>try\<close> block throws (both helpers catch the client's errors themselves), so
  the outer \<open>catch\<close> has no branch here.
\<close>

definition executeTrade ::
  "exchange \<Rightarrow> int \<Rightarrow> string \<Rightarrow> TradeExecutionRequest \<Rightarrow> TradeExecutionEngine
     \<Rightarrow> TradeExecutionResult \<times> TradeExecutionEngine" where
  "executeTrade ex now nonce request eng =
     (if \<not> shouldTrade (riskCheck request) then
        (\<lparr>success = False, orderId = None, clientOrderId = None, executedPrice = None,
          executedQuantity = None, fees = None,
          error = Some (''Risk check failed: '' @ join '', '' (rc_warnings (riskCheck request))),
          ex_warnings = rc_warnings (riskCheck request), ex_timestamp = now\<rparr>, eng)
      else if js_le (quantity (positionSize request)) 0 then
        (\<lparr>success = False, orderId = None, clientOrderId = None, executedPrice = None,
          executedQuantity = None, fees = None, error = Some ''Invalid position size'',
          ex_warnings = ps_warnings (positionSize request), ex_timestamp = now\<rparr>, eng)
      else
        let orderResponse = fst (placeOrderWithRetry ex now (entryRequest now nonce request) eng);
            eng1 = snd (placeOrderWithRetry ex now (entryRequest now nonce request) eng)
        in if \<not> success orderResponse then
             (\<lparr>success = False, orderId = None, clientOrderId = None, executedPrice = None,
               executedQuantity = None, fees = None,
               error = Some (case error orderResponse of
                               None \<Rightarrow> ''Order placement failed''
                             | Some e \<Rightarrow> if e = [] then ''Order placement failed'' else e),
               ex_warnings = [] @ ex_warnings orderResponse, ex_timestamp = now\<rparr>, eng1)
           else
             let side = (if action (signal request) = BUY then LONG else SHORT);
                 parent = (case clientOrderId orderResponse of
                             None \<Rightarrow> ''undefined'' | Some c \<Rightarrow> c);
                 sl = placeStopLossOrder ex now (sig_symbol (signal request))
                        (quantity (positionSize request)) (stopLossPrice (riskCheck request))
                        side parent eng1;
                 tp = placeTakeProfitOrder ex now (sig_symbol (signal request))
                        (quantity (positionSize request)) (takeProfitPrice (riskCheck request))
                        side parent (snd sl)
             in (\<lparr>success = True, orderId = orderId orderResponse,
                   clientOrderId = clientOrderId orderResponse,
                   executedPrice = Some (currentPrice request),
                   executedQuantity = Some (quantity (positionSize request)),
                   fees = Some 0, error = None,
                   ex_warnings = ([] @ ex_warnings (fst sl)) @ ex_warnings (fst tp),
                   ex_timestamp = now\<rparr>, snd tp))"

section \<open>Signal validator\<close>

text \<open>Source: the module \<^verbatim>\<open>validator\<close>, lines 148 to 421 of
  \<^verbatim>\<open>src/PROJECT_SUMMARY.md\<close>.\<close>











section \<open>Reading aids and sample inputs\<close>

text \<open>
  The level each check assigns together with its warning: \<open>checkSafety\<close> pushes the
  warning and sets \<open>riskLevel\<close> in the same branch, and so does \<open>checkTradeRisk\<close>.
  The warnings of a result therefore tell which checks fired.
\<close>

fun safety_warning_level :: "safety_warning \<Rightarrow> risk_level" where
  "safety_warning_level EmergencyStopIsActive = CRITICAL"
| "safety_warning_level (CircuitBreakerActive r) = HIGH"
| "safety_warning_level (BalanceBelowMinimum b) = CRITICAL"
| "safety_warning_level (DailyLossLimitExceeded d) = CRITICAL"
| "safety_warning_level (MaximumDrawdownExceeded d) = CRITICAL"
| "safety_warning_level (MaximumOpenPositionsReached n) = HIGH"
| "safety_warning_level (MaximumPositionSizeExceeded v) = HIGH"
| "safety_warning_level (MaximumConsecutiveLossesReached n) = HIGH"
| "safety_warning_level (HighVolatilityDetected v) = MEDIUM"
| "safety_warning_level (MaximumLeverageExceeded l) = HIGH"

definition risk_warning_level :: "string \<Rightarrow> risk_level" where
  "risk_warning_level w =
     (if w = ''Daily loss limit reached'' then CRITICAL
      else if w = ''Maximum drawdown exceeded'' then CRITICAL
      else if w = ''Position already exists for this symbol'' then HIGH
      else if w = ''High volatility detected'' then HIGH
      else LOW)"

text \<open>
  What the exchange answers to the stop-loss order and to the take-profit order of one
  \<open>executeTrade\<close> run: the requests are the ones the run builds, and the exchange has by
  then received the entry attempts (and, for the take-profit order, the stop-loss order).
\<close>

definition stopLossOutcome ::
  "exchange \<Rightarrow> int \<Rightarrow> string \<Rightarrow> TradeExecutionRequest \<Rightarrow> TradeExecutionEngine \<Rightarrow> string + int" where
  "stopLossOutcome ex now nonce request eng =
     ex (sent (snd (placeOrderWithRetry ex now (entryRequest now nonce request) eng)))
        (stopLossRequest now (sig_symbol (signal request)) (quantity (positionSize request))
           (stopLossPrice (riskCheck request))
           (if action (signal request) = BUY then LONG else SHORT)
           (newClientOrderId (entryRequest now nonce request)))"

definition takeProfitOutcome ::
  "exchange \<Rightarrow> int \<Rightarrow> string \<Rightarrow> TradeExecutionRequest \<Rightarrow> TradeExecutionEngine \<Rightarrow> string + int" where
  "takeProfitOutcome ex now nonce request eng =
     ex (sent (snd (placeOrderWithRetry ex now (entryRequest now nonce request) eng))
           @ [stopLossRequest now (sig_symbol (signal request)) (quantity (positionSize request))
                (stopLossPrice (riskCheck request))
                (if action (signal request) = BUY then LONG else SHORT)
                (newClientOrderId (entryRequest now nonce request))])
        (takeProfitRequest now (sig_symbol (signal request)) (quantity (positionSize request))
           (takeProfitPrice (riskCheck request))
           (if action (signal request) = BUY then LONG else SHORT)
           (newClientOrderId (entryRequest now nonce request)))"

definition failureWarning :: "string + int \<Rightarrow> string \<Rightarrow> string list" where
  "failureWarning outcome w = (case outcome of Inl msg \<Rightarrow> [w] | Inr oid \<Rightarrow> [])"

text \<open>
  The thresholds the trading engine passes to the safety manager under the default
  configuration (the constructor of \<open>TradingEngine\<close>, lines 504 to 514 of
  \<^verbatim>\<open>src/PROJECT_SUMMARY.md\<close>), and the configurations and inputs of the
  repository's test suite (lines 642 to 687 of \<^verbatim>\<open>src/docs/SETUP.md\<close>).
\<close>

definition engineThresholds :: SafetyThresholds where
  "engineThresholds =
     \<lparr>maxDailyLoss = 5, maxDrawdown = 10, maxOpenPositions = 3, maxPositionSize = 1000,
      maxLeverage = 10, minBalance = 100, maxConsecutiveLosses = 5, maxVolatility = 50,
      emergencyStopLoss = 5\<rparr>"

definition quietMetrics :: RiskMetrics where
  "quietMetrics =
     \<lparr>rm_currentDrawdown = 2, rm_dailyPnL = -100, rm_maxDrawdown = 5, rm_volatility = 25\<rparr>"


definition testRiskConfig :: RiskManagementConfig where
  "testRiskConfig =
     \<lparr>stopLossPercent = 2, takeProfitPercent = 4, trailingStopPercent = 1,
      useVolatilityStops = True, maxRiskPerTrade = 2, riskRewardRatio = 2\<rparr>"

definition btcBuy :: ProcessedSignal where
  "btcBuy = \<lparr>sig_id = ''signal_123'', sig_symbol = ''BTCUSDT'', action = BUY, strength = STRONG,
             sig_price = 50000, sig_confidence = 0.8\<rparr>"

definition smallBtc :: BingXPosition where
  "smallBtc = \<lparr>pos_symbol = ''BTCUSDT'', positionAmt = 0.001, entryPrice = 50000\<rparr>"

definition lossTrade :: TradeRecord where
  "lossTrade = \<lparr>trade_symbol = ''BTCUSDT'', pnl = Some (-10)\<rparr>"

text \<open>A clock on which every instant falls on the same local day.\<close>

definition oneDay :: "int \<Rightarrow> local_date" where
  "oneDay t = \<lparr>getDate = 1, getMonth = 0, getFullYear = 2025\<rparr>"



text \<open>An exchange that fills entry orders and rejects every reduce-only order.\<close>

definition rejectBrackets :: exchange where
  "rejectBrackets hist req = (if reduceOnly req then Inl ''Order rejected'' else Inr 12345)"

definition sampleRequest :: TradeExecutionRequest where
  "sampleRequest =
     \<lparr>signal = btcBuy,
      positionSize = \<lparr>quantity = Num 0.01, notionalValue = Num 500, riskAmount = Num 10,
                       riskPercentage = Num 0.1, leverage = Num 10,
                       strategy = ''COMBINED_STRATEGY'', ps_confidence = 0.8,
                       ps_warnings = [''sizing note'']\<rparr>,
      riskCheck = \<lparr>shouldTrade = True, rc_riskLevel = LOW, rc_warnings = [''risk note''],
                    rc_maxPositionSize = Num 0.004, stopLossPrice = 49000,
                    takeProfitPrice = 52000, trailingStopPrice = None\<rparr>,
      currentPrice = 50000,
      accountInfo = \<lparr>availableBalance = 10000\<rparr>\<rparr>"

definition idleEngine :: TradeExecutionEngine where
  "idleEngine = \<lparr>sent = [], activeOrders = Map.empty, orderHistory = []\<rparr>"


section \<open>Safety manager: properties\<close>

lemmas safety_eval =
  checkSafety_def newSafetyManager_def engineThresholds_def quietMetrics_def Let_def
  totalPositionValue_def js_div_def updateConsecutiveLosses_def triggerCircuitBreaker_def
  resetCircuitBreaker_def

lemma checkSafety_emergencyStop:
  "emergencyStop (snd (checkSafety now sm a ps m ts)) = emergencyStop sm"
  by (simp add: checkSafety_def Let_def triggerCircuitBreaker_def resetCircuitBreaker_def
      updateConsecutiveLosses_def)

lemma applyOp_emergencyStop:
  "op \<noteq> DeactivateEmergencyStop \<Longrightarrow> emergencyStop sm \<Longrightarrow> emergencyStop (applyOp cal sm op)"
  by (cases op)
     (simp_all add: checkSafety_emergencyStop triggerCircuitBreaker_def resetCircuitBreaker_def
        activateEmergencyStop_def updateDailyLoss_def Let_def startTradingSession_def
        endTradingSession_def split: list.splits)

lemma runOps_emergencyStop:
  "DeactivateEmergencyStop \<notin> set ops \<Longrightarrow> emergencyStop sm \<Longrightarrow> emergencyStop (runOps cal sm ops)"
  unfolding runOps_def
  by (induction ops arbitrary: sm) (auto simp: applyOp_emergencyStop)

text \<open>
  Claim C1. The \<open>riskLevel\<close> returned by \<open>checkTradeRisk\<close> and by \<open>checkSafety\<close> is the
  worst level (under \<open>LOW < MEDIUM < HIGH < CRITICAL\<close>) assigned by the checks that fired
  during the call; a later, milder check never lowers it.

  The code assigns \<open>riskLevel\<close> unconditionally in every check, so the last check that
  fires decides. With the engine's thresholds, a balance of 50 (below the minimum of 100,
  CRITICAL) and a volatility of 60 (above 50, MEDIUM), \<open>checkSafety\<close> reports both
  warnings and the level MEDIUM. With a daily loss of 600 on a balance of 10000 (CRITICAL)
  and an open position in the signal's symbol (HIGH), \<open>checkTradeRisk\<close> reports both
  warnings and the level HIGH. In both cases the worst level of the fired checks is
  CRITICAL.
\<close>

theorem later_check_lowers_risk_level:
  "riskLevel (fst (checkSafety 0 (newSafetyManager 0 engineThresholds) \<lparr>availableBalance = 50\<rparr> []
       (quietMetrics\<lparr>rm_volatility := 60\<rparr>) [])) = MEDIUM
   \<and> warnings (fst (checkSafety 0 (newSafetyManager 0 engineThresholds) \<lparr>availableBalance = 50\<rparr> []
       (quietMetrics\<lparr>rm_volatility := 60\<rparr>) []))
       = [BalanceBelowMinimum 50, HighVolatilityDetected 60]
   \<and> worst (map safety_warning_level [BalanceBelowMinimum 50, HighVolatilityDetected 60]) = CRITICAL
   \<and> rc_riskLevel (fst (checkTradeRisk \<lparr>config = testRiskConfig, dailyPnL = -600, peakBalance = 0\<rparr>
       btcBuy 50000 10000 [smallBtc] None)) = HIGH
   \<and> rc_warnings (fst (checkTradeRisk \<lparr>config = testRiskConfig, dailyPnL = -600, peakBalance = 0\<rparr>
       btcBuy 50000 10000 [smallBtc] None))
       = [''Daily loss limit reached'', ''Position already exists for this symbol'']
   \<and> worst (map risk_warning_level
        [''Daily loss limit reached'', ''Position already exists for this symbol'']) = CRITICAL"
  by (simp add: safety_eval worst_def worse_def checkTradeRisk_def testRiskConfig_def
      btcBuy_def smallBtc_def calculateDrawdown_def truthy_def risk_warning_level_def)

text \<open>
  Claim C2. After \<open>updateDailyLoss\<close> calls whose accumulated daily PnL is below
  \<open>-(accountBalance * maxDailyLoss%)\<close>, the next \<open>checkSafety\<close> call (emergency stop off,
  breaker not in cooldown) returns \<open>isTradingEnabled = false\<close>, \<open>riskLevel = CRITICAL\<close>
  and \<open>circuitBreakerActive = true\<close>.

  The scenario of the repository's test (a loss of 600 on a balance of 10000 with a limit
  of 5), with three open positions instead of none: the daily loss is below the limit and
  the call blocks trading and trips the breaker, but the open-position check that follows
  resets the level, and the status reports HIGH.
\<close>

theorem daily_loss_breach_reported_high:
  "dailyLoss (updateDailyLoss oneDay 0 (-600) (newSafetyManager 0 engineThresholds))
     < - (10000 * maxDailyLoss engineThresholds / 100)
   \<and> fst (checkSafety 0 (updateDailyLoss oneDay 0 (-600) (newSafetyManager 0 engineThresholds))
        \<lparr>availableBalance = 10000\<rparr> [smallBtc, smallBtc, smallBtc] quietMetrics [])
     = \<lparr>isTradingEnabled = False, circuitBreakerActive = True, emergencyStopActive = False,
        warnings = [DailyLossLimitExceeded (-600), MaximumOpenPositionsReached 3],
        lastCheck = 0, riskLevel = HIGH\<rparr>"
  by (simp add: safety_eval updateDailyLoss_def oneDay_def smallBtc_def)

text \<open>
  Claim C4. A \<open>checkSafety\<close> call adds the consecutive-losses warning, raises the level
  to HIGH and triggers the circuit breaker exactly when the \<open>recentTrades\<close> passed to that
  same call end with a run of at least \<open>maxConsecutiveLosses\<close> losing trades.

  The check reads the count stored by the previous call; the trades of the current call
  are counted only after all checks have run. A fresh manager given five losing trades
  (limit 5) reports nothing, and the next call, given no trades at all, reports the five
  losses and trips the breaker.
\<close>

theorem consecutive_losses_checked_one_call_late:
  "countLosses (rev [lossTrade, lossTrade, lossTrade, lossTrade, lossTrade]) = 5
   \<and> fst (checkSafety 0 (newSafetyManager 0 engineThresholds) \<lparr>availableBalance = 10000\<rparr> []
        quietMetrics [lossTrade, lossTrade, lossTrade, lossTrade, lossTrade])
     = \<lparr>isTradingEnabled = True, circuitBreakerActive = False, emergencyStopActive = False,
        warnings = [], lastCheck = 0, riskLevel = LOW\<rparr>
   \<and> fst (checkSafety 1
        (snd (checkSafety 0 (newSafetyManager 0 engineThresholds) \<lparr>availableBalance = 10000\<rparr> []
                quietMetrics [lossTrade, lossTrade, lossTrade, lossTrade, lossTrade]))
        \<lparr>availableBalance = 10000\<rparr> [] quietMetrics [])
     = \<lparr>isTradingEnabled = True, circuitBreakerActive = True, emergencyStopActive = False,
        warnings = [MaximumConsecutiveLossesReached 5], lastCheck = 1, riskLevel = HIGH\<rparr>"
  by (simp add: safety_eval lossTrade_def isLoss_def)

text \<open>
  Claim C5. Once \<open>activateEmergencyStop\<close> has been called, and whatever operations other
  than \<open>deactivateEmergencyStop\<close> follow, the latch stays set and every \<open>checkSafety\<close>
  call returns \<open>isTradingEnabled = false\<close>, \<open>emergencyStopActive = true\<close> and
  \<open>riskLevel = CRITICAL\<close>, for every account, position list, metrics and trade list.
\<close>

theorem emergency_stop_latch:
  assumes "DeactivateEmergencyStop \<notin> set ops"
  shows "emergencyStop (runOps cal (activateEmergencyStop sm) ops)
       \<and> fst (checkSafety now (runOps cal (activateEmergencyStop sm) ops) a ps m ts) =
           \<lparr>isTradingEnabled = False, circuitBreakerActive = False, emergencyStopActive = True,
            warnings = [EmergencyStopIsActive], lastCheck = now, riskLevel = CRITICAL\<rparr>"
proof -
  have "emergencyStop (activateEmergencyStop sm)"
    by (simp add: activateEmergencyStop_def)
  with assms have "emergencyStop (runOps cal (activateEmergencyStop sm) ops)"
    by (rule runOps_emergencyStop)
  then show ?thesis
    by (simp add: checkSafety_def)
qed

theorem emergency_stop_latch_witness:
  "DeactivateEmergencyStop \<notin> set
      [UpdateDailyLoss 1 (-600), CheckSafety 2 \<lparr>availableBalance = 10000\<rparr> [] quietMetrics [],
       TriggerCircuitBreaker 3 ''manual'', ResetCircuitBreaker, ActivateEmergencyStop,
       StartTradingSession 4, EndTradingSession 5 100 5]
   \<and> fst (checkSafety 9
        (runOps oneDay (activateEmergencyStop (newSafetyManager 0 engineThresholds))
           [UpdateDailyLoss 1 (-600), CheckSafety 2 \<lparr>availableBalance = 10000\<rparr> [] quietMetrics [],
            TriggerCircuitBreaker 3 ''manual'', ResetCircuitBreaker, ActivateEmergencyStop,
            StartTradingSession 4, EndTradingSession 5 100 5])
        \<lparr>availableBalance = 10000\<rparr> [smallBtc] quietMetrics [lossTrade])
     = \<lparr>isTradingEnabled = False, circuitBreakerActive = False, emergencyStopActive = True,
        warnings = [EmergencyStopIsActive], lastCheck = 9, riskLevel = CRITICAL\<rparr>"
  using emergency_stop_latch
    [of "[UpdateDailyLoss 1 (-600), CheckSafety 2 \<lparr>availableBalance = 10000\<rparr> [] quietMetrics [],
          TriggerCircuitBreaker 3 ''manual'', ResetCircuitBreaker, ActivateEmergencyStop,
          StartTradingSession 4, EndTradingSession 5 100 5]"
        oneDay "newSafetyManager 0 engineThresholds" 9 "\<lparr>availableBalance = 10000\<rparr>"
        "[smallBtc]" quietMetrics "[lossTrade]"]
  by simp

section \<open>Risk manager: properties\<close>





text \<open>
  Claim C10. In \<open>checkTradeRisk\<close> a volatility of exactly 0 is treated as an absent one:
  the whole result (and the manager's state) is the one of the call without a volatility,
  the fixed-percentage stop-loss and take-profit formulas are used whether or not
  \<open>useVolatilityStops\<close> is enabled, and the result has no \<open>trailingStopPrice\<close>.
\<close>

theorem zero_volatility_is_absent:
  "checkTradeRisk rk sig P B ps (Some 0) = checkTradeRisk rk sig P B ps None
   \<and> trailingStopPrice (fst (checkTradeRisk rk sig P B ps (Some 0))) = None
   \<and> stopLossPrice (fst (checkTradeRisk rk sig P B ps (Some 0)))
       = (if action sig = BUY then P - P * (stopLossPercent (config rk) / 100)
          else P + P * (stopLossPercent (config rk) / 100))
   \<and> takeProfitPrice (fst (checkTradeRisk rk sig P B ps (Some 0)))
       = (if action sig = BUY then P + P * (takeProfitPercent (config rk) / 100)
          else P - P * (takeProfitPercent (config rk) / 100))"
  by (simp add: checkTradeRisk_def Let_def truthy_def calculateStopLevels_def)

section \<open>Execution engine: properties\<close>

lemma retryLoop_clientOrderId:
  "success (fst (retryLoop ex now req left attempt lastError eng)) \<Longrightarrow>
   clientOrderId (fst (retryLoop ex now req left attempt lastError eng)) = Some (newClientOrderId req)"
  by (induction left arbitrary: attempt lastError eng) (auto simp: Let_def split: sum.splits)

lemma placeBracketOrder_result:
  "ex_warnings (fst (placeBracketOrder ex now req w eng)) = failureWarning (ex (sent eng) req) w"
  "sent (snd (placeBracketOrder ex now req w eng)) = sent eng @ [req]"
  by (simp_all add: placeBracketOrder_def failureWarning_def Let_def split: sum.splits)

text \<open>
  Claim C6. If \<open>riskCheck.shouldTrade\<close> is false, or \<open>positionSize.quantity <= 0\<close>,
  \<open>executeTrade\<close> makes no call to the exchange client (the engine, and with it the list
  of requests sent, is unchanged) and returns a failure whose warnings are the risk
  check's warnings, respectively the position size's warnings when the risk check allows
  the trade.
\<close>

theorem failed_precondition_sends_nothing:
  assumes "\<not> shouldTrade (riskCheck request) \<or> js_le (quantity (positionSize request)) 0"
  shows "snd (executeTrade ex now nonce request eng) = eng
       \<and> sent (snd (executeTrade ex now nonce request eng)) = sent eng
       \<and> success (fst (executeTrade ex now nonce request eng)) = False
       \<and> ex_warnings (fst (executeTrade ex now nonce request eng))
           = (if \<not> shouldTrade (riskCheck request) then rc_warnings (riskCheck request)
              else ps_warnings (positionSize request))"
  using assms by (auto simp: executeTrade_def)

theorem failed_precondition_sends_nothing_witness:
  "snd (executeTrade rejectBrackets 5 ''n''
          (sampleRequest\<lparr>riskCheck := (riskCheck sampleRequest)\<lparr>shouldTrade := False\<rparr>\<rparr>)
          idleEngine) = idleEngine
   \<and> ex_warnings (fst (executeTrade rejectBrackets 5 ''n''
          (sampleRequest\<lparr>riskCheck := (riskCheck sampleRequest)\<lparr>shouldTrade := False\<rparr>\<rparr>)
          idleEngine)) = [''risk note'']
   \<and> success (fst (executeTrade rejectBrackets 5 ''n''
          (sampleRequest\<lparr>positionSize := (positionSize sampleRequest)\<lparr>quantity := Num 0\<rparr>\<rparr>)
          idleEngine)) = False
   \<and> ex_warnings (fst (executeTrade rejectBrackets 5 ''n''
          (sampleRequest\<lparr>positionSize := (positionSize sampleRequest)\<lparr>quantity := Num 0\<rparr>\<rparr>)
          idleEngine)) = [''sizing note'']"
  using failed_precondition_sends_nothing
          [of "sampleRequest\<lparr>riskCheck := (riskCheck sampleRequest)\<lparr>shouldTrade := False\<rparr>\<rparr>"
              rejectBrackets 5 "''n''" idleEngine]
        failed_precondition_sends_nothing
          [of "sampleRequest\<lparr>positionSize := (positionSize sampleRequest)\<lparr>quantity := Num 0\<rparr>\<rparr>"
              rejectBrackets 5 "''n''" idleEngine]
  by (simp add: sampleRequest_def)

text \<open>
  Claim C8. If the preconditions hold and the market entry order succeeds (on any of its
  attempts), \<open>executeTrade\<close> returns \<open>success = true\<close> whatever the exchange answers to
  the two bracket orders, and its warnings are exactly one warning for the stop-loss order
  if that order was refused, followed by one for the take-profit order if that order was
  refused.
\<close>

theorem bracket_failures_are_warnings:
  assumes "shouldTrade (riskCheck request)"
      and "\<not> js_le (quantity (positionSize request)) 0"
      and "success (fst (placeOrderWithRetry ex now (entryRequest now nonce request) eng))"
  shows "success (fst (executeTrade ex now nonce request eng)) = True
       \<and> ex_warnings (fst (executeTrade ex now nonce request eng))
           = failureWarning (stopLossOutcome ex now nonce request eng)
               ''Failed to place stop loss order''
             @ failureWarning (takeProfitOutcome ex now nonce request eng)
                 ''Failed to place take profit order''"
proof -
  have cid: "clientOrderId (fst (placeOrderWithRetry ex now (entryRequest now nonce request) eng))
               = Some (newClientOrderId (entryRequest now nonce request))"
    using assms(3) unfolding placeOrderWithRetry_def by (rule retryLoop_clientOrderId)
  show ?thesis
    using assms cid
    by (simp add: executeTrade_def Let_def placeStopLossOrder_def placeTakeProfitOrder_def
        placeBracketOrder_result stopLossOutcome_def takeProfitOutcome_def)
qed

theorem bracket_failures_are_warnings_witness:
  "success (fst (executeTrade rejectBrackets 1700000000000 ''k3j9x2m1q'' sampleRequest idleEngine))
     = True
   \<and> ex_warnings (fst (executeTrade rejectBrackets 1700000000000 ''k3j9x2m1q'' sampleRequest
        idleEngine))
       = [''Failed to place stop loss order'', ''Failed to place take profit order'']"
  using bracket_failures_are_warnings
          [of sampleRequest rejectBrackets 1700000000000 "''k3j9x2m1q''" idleEngine]
  by (simp add: sampleRequest_def rejectBrackets_def idleEngine_def placeOrderWithRetry_def
      maxRetries_def numeral_3_eq_3 entryRequest_def btcBuy_def Let_def
      stopLossOutcome_def takeProfitOutcome_def stopLossRequest_def takeProfitRequest_def
      failureWarning_def)

section \<open>Signal validator: properties\<close>



section \<open>Position sizer: properties\<close>










section \<open>What the safety and risk checks do guarantee\<close>

text \<open>
  The level returned is the level of the last check that fired (\<open>LOW\<close> when none did),
  in \<open>checkSafety\<close> and in \<open>checkTradeRisk\<close>.
\<close>

lemma checkSafety_level_is_last_warning:
  "riskLevel (fst (checkSafety now sm a ps m ts))
     = (if warnings (fst (checkSafety now sm a ps m ts)) = [] then LOW
        else safety_warning_level (last (warnings (fst (checkSafety now sm a ps m ts)))))"
  by (simp add: checkSafety_def Let_def)

lemma checkTradeRisk_level_is_last_warning:
  "rc_riskLevel (fst (checkTradeRisk rk sig P B ps v))
     = (if rc_warnings (fst (checkTradeRisk rk sig P B ps v)) = [] then LOW
        else risk_warning_level (last (rc_warnings (fst (checkTradeRisk rk sig P B ps v)))))"
  by (simp add: checkTradeRisk_def Let_def risk_warning_level_def)

text \<open>
  A daily loss below \<open>-maxDailyLoss\<close> (the threshold taken as an amount) always blocks
  trading and trips the breaker, when the call gets past the emergency stop and the
  cooldown.
\<close>

lemma daily_loss_breach_blocks_trading:
  assumes "\<not> emergencyStop sm"
      and "\<not> (isActive (circuitBreaker sm)
               \<and> now - triggerTime (circuitBreaker sm) < cooldownPeriod (circuitBreaker sm))"
      and "dailyLoss sm < - maxDailyLoss (thresholds sm)"
  shows "isTradingEnabled (fst (checkSafety now sm a ps m ts)) = False
       \<and> circuitBreakerActive (fst (checkSafety now sm a ps m ts)) = True
       \<and> DailyLossLimitExceeded (dailyLoss sm) \<in> set (warnings (fst (checkSafety now sm a ps m ts)))"
  using assms
  by (simp add: checkSafety_def Let_def triggerCircuitBreaker_def resetCircuitBreaker_def
      updateConsecutiveLosses_def)

text \<open>
  The consecutive-losses check fires exactly when the count the manager held before the
  call reaches the limit; the trades of the call set the count the next call will read.
\<close>

lemma consecutive_loss_check_reads_stored_count:
  assumes "\<not> emergencyStop sm"
      and "\<not> (isActive (circuitBreaker sm)
               \<and> now - triggerTime (circuitBreaker sm) < cooldownPeriod (circuitBreaker sm))"
  shows "(MaximumConsecutiveLossesReached (consecutiveLosses sm)
            \<in> set (warnings (fst (checkSafety now sm a ps m ts))))
           = (maxConsecutiveLosses (thresholds sm) \<le> real (consecutiveLosses sm))"
    and "consecutiveLosses (snd (checkSafety now sm a ps m ts)) = countLosses (rev ts)"
  using assms
  by (auto simp: checkSafety_def Let_def triggerCircuitBreaker_def resetCircuitBreaker_def
      updateConsecutiveLosses_def)

end
